theory Spec2Isabelle
  imports Main "HOL-Library.Word"
begin

section \<open>Images and the imaging primitives used by \<open>anaglyph.py\<close>\<close>

text \<open>
  An image is a rectangular grid of pixels with an explicit size, as a Pillow image
  carries its \<open>size\<close> next to its data. The data is a list of rows, top row first.
  A three-channel image has pixels \<open>(r, g, b)\<close> of 8-bit samples; a channel plane
  (Pillow mode \<open>L\<close>) has single 8-bit samples.
\<close>

type_synonym byte = "8 word"

type_synonym rgb = "byte \<times> byte \<times> byte"

record 'p image =
  xsize :: nat
  ysize :: nat
  im :: "'p list list"

definition valid_image :: "'p image \<Rightarrow> bool" where
  "valid_image img \<longleftrightarrow>
     length (im img) = ysize img \<and> list_all (\<lambda>row. length row = xsize img) (im img)"

text \<open>Reading one pixel; outside the grid there is no pixel (Pillow raises IndexError).\<close>

definition getpixel :: "'p image \<Rightarrow> nat \<Rightarrow> nat \<Rightarrow> 'p option" where
  "getpixel img x y =
     (if x < xsize img \<and> y < ysize img then Some (im img ! y ! x) else None)"

definition red :: "rgb \<Rightarrow> byte" where
  "red p = (case p of (r, g, b) \<Rightarrow> r)"

definition green :: "rgb \<Rightarrow> byte" where
  "green p = (case p of (r, g, b) \<Rightarrow> g)"

definition blue :: "rgb \<Rightarrow> byte" where
  "blue p = (case p of (r, g, b) \<Rightarrow> b)"

text \<open>
  The Python exceptions that occur, each with the text that \<open>str(e)\<close> gives.
  All of them are subclasses of \<open>Exception\<close>, so \<open>except Exception\<close> catches each.
\<close>

datatype exn =
    ValueError string
  | FileNotFoundError string
  | IsADirectoryError string
  | NotADirectoryError string
  | UnidentifiedImageError string
  | OSError string

fun str_exn :: "exn \<Rightarrow> string" where
  "str_exn (ValueError m) = m"
| "str_exn (FileNotFoundError m) = m"
| "str_exn (IsADirectoryError m) = m"
| "str_exn (NotADirectoryError m) = m"
| "str_exn (UnidentifiedImageError m) = m"
| "str_exn (OSError m) = m"

text \<open>
  Modelled from the spec: Pillow's \<open>ImageChops.offset(image, xoffset, yoffset)\<close>, which is
  not part of the repository. The spec (4.1, step 2) describes the call
  \<open>offset(img, -offset, 0)\<close> as translating all pixels horizontally with wrap-around:
  a shift to the left by \<open>n\<close> pixels moves the pixels that leave the left edge to the
  right edge, which is a left rotation of every row. A translation by \<open>xoffset\<close> to the
  right (and \<open>yoffset\<close> downwards) is therefore a left rotation of every row by
  \<open>(- xoffset) mod xsize\<close> and an upward rotation of the rows by \<open>(- yoffset) mod ysize\<close>.
  The size is kept.
\<close>

definition ImageChops_offset :: "'p image \<Rightarrow> int \<Rightarrow> int \<Rightarrow> 'p image" where
  "ImageChops_offset img xoffset yoffset =
     img\<lparr>im :=
       rotate (nat ((- yoffset) mod int (ysize img)))
         (map (rotate (nat ((- xoffset) mod int (xsize img)))) (im img))\<rparr>"

text \<open>
  Modelled from the spec: Pillow's \<open>Image.split()\<close>, not part of the repository. It
  returns the channel planes of a three-channel image in the order red, green, blue
  (spec 3, Channel Plane), each of the size of the image.
\<close>

definition band :: "('p \<Rightarrow> byte) \<Rightarrow> 'p image \<Rightarrow> byte image" where
  "band f img = \<lparr>xsize = xsize img, ysize = ysize img, im = map (map f) (im img)\<rparr>"

definition Image_split :: "rgb image \<Rightarrow> byte image list" where
  "Image_split img = [band red img, band green img, band blue img]"

text \<open>
  Modelled from the spec: Pillow's \<open>Image.merge("RGB", (r, g, b))\<close>, not part of the
  repository. It builds the three-channel image whose channels are the three planes
  (spec 4.1, step 5); Pillow raises ValueError when the planes differ in size.
\<close>

definition Image_merge :: "byte image \<Rightarrow> byte image \<Rightarrow> byte image \<Rightarrow> exn + rgb image" where
  "Image_merge r g b =
     (if (xsize g, ysize g) \<noteq> (xsize r, ysize r) \<or> (xsize b, ysize b) \<noteq> (xsize r, ysize r)
      then Inl (ValueError ''size mismatch'')
      else Inr \<lparr>xsize = xsize r, ysize = ysize r,
                im = map (\<lambda>(rr, gr, br). zip rr (zip gr br)) (zip (im r) (zip (im g) (im b)))\<rparr>)"

section \<open>The channel recombination of \<open>create_anaglyph\<close>\<close>

text \<open>
  Lines 45 to 55 of \<open>create_anaglyph\<close>: the left view is the image shifted by
  \<open>- offset\<close>, its red plane is merged with the green and blue planes of the original.
  The result is the image handed to \<open>save\<close>.
\<close>

definition anaglyph_image :: "rgb image \<Rightarrow> int \<Rightarrow> exn + rgb image" where
  "anaglyph_image img offset =
     (let left_img = ImageChops_offset img (- offset) 0;
          left_red = Image_split left_img ! 0;
          right_green = Image_split img ! 1;
          right_blue = Image_split img ! 2
      in Image_merge left_red right_green right_blue)"


section \<open>Strings and paths\<close>

text \<open>
  A Python \<open>str\<close> is modelled as a \<open>string\<close> whose characters are the code points
  below 256. \<open>str.lower()\<close> maps the upper-case letters of that range (A to Z, and
  U+00C0 to U+00DE without the multiplication sign U+00D7) to the letter 32 positions
  later and leaves every other character alone.
\<close>

definition lower_char :: "char \<Rightarrow> char" where
  "lower_char c =
     (let n = (of_char c :: nat)
      in if (65 \<le> n \<and> n \<le> 90) \<or> (192 \<le> n \<and> n \<le> 222 \<and> n \<noteq> 215)
         then char_of (n + 32) else c)"

definition lower :: "string \<Rightarrow> string" where
  "lower s = map lower_char s"

text \<open>\<open>str.rfind(c)\<close>: the index of the last occurrence of \<open>c\<close>, or \<open>-1\<close>.\<close>

fun rfind :: "string \<Rightarrow> char \<Rightarrow> int" where
  "rfind [] c = - 1"
| "rfind (x # xs) c =
     (let r = rfind xs c in if 0 \<le> r then r + 1 else if x = c then 0 else - 1)"

text \<open>
  \<open>os.path.splitext\<close> (POSIX flavour: separator \<open>/\<close>, no alternative separator), as
  \<open>genericpath._splitext\<close> computes it. The extension starts at the last dot, provided
  that dot comes after the last separator and some character between the separator
  and the dot is not a dot (leading dots do not start an extension). The function
  \<open>skip_leading_dots\<close> is the \<open>while\<close> loop that looks for such a character.
\<close>

function skip_leading_dots :: "string \<Rightarrow> nat \<Rightarrow> nat \<Rightarrow> bool" where
  "skip_leading_dots p filenameIndex dotIndex =
     (if filenameIndex < dotIndex
      then (if p ! filenameIndex \<noteq> CHR ''.'' then True
            else skip_leading_dots p (filenameIndex + 1) dotIndex)
      else False)"
  by pat_completeness auto
termination
  by (relation "measure (\<lambda>(p, filenameIndex, dotIndex). dotIndex - filenameIndex)") auto

declare skip_leading_dots.simps [simp del]

definition splitext :: "string \<Rightarrow> string \<times> string" where
  "splitext p =
     (let sepIndex = rfind p CHR ''/'';
          dotIndex = rfind p CHR ''.''
      in if dotIndex > sepIndex \<and> skip_leading_dots p (nat (sepIndex + 1)) (nat dotIndex)
         then (take (nat dotIndex) p, drop (nat dotIndex) p)
         else (p, []))"

text \<open>\<open>os.path.join(a, b)\<close> (POSIX flavour) for two components.\<close>

definition path_join :: "string \<Rightarrow> string \<Rightarrow> string" where
  "path_join a b =
     (if b \<noteq> [] \<and> hd b = CHR ''/'' then b
      else if a = [] \<or> last a = CHR ''/'' then a @ b
      else a @ ''/'' @ b)"

text \<open>
  \<open>int(s)\<close> for a \<open>str\<close> in base 10: white space around the literal is dropped, one
  sign may come first, then decimal digits, where single underscores may stand between
  digits. \<open>None\<close> stands for the ValueError that \<open>int\<close> raises. The white space that
  \<open>int\<close> drops is the ASCII white space (tab, line feed, vertical tab, form feed,
  carriage return, space) and, beyond ASCII, the Unicode spaces, of which U+0085 and
  U+00A0 lie below 256; the separators U+001C to U+001F are not dropped. A literal of
  more than 4300 digits is refused as well (the default limit of the interpreter on
  conversions from text).
\<close>

definition is_space :: "char \<Rightarrow> bool" where
  "is_space c \<longleftrightarrow> (of_char c :: nat) \<in> {9, 10, 11, 12, 13, 32, 133, 160}"

definition strip :: "string \<Rightarrow> string" where
  "strip s = rev (dropWhile is_space (rev (dropWhile is_space s)))"

definition digit_val :: "char \<Rightarrow> int option" where
  "digit_val c =
     (let n = (of_char c :: nat) in if 48 \<le> n \<and> n \<le> 57 then Some (int n - 48) else None)"

fun parse_digits :: "int \<Rightarrow> string \<Rightarrow> int option" where
  "parse_digits acc [] = Some acc"
| "parse_digits acc (c # cs) =
     (if c = CHR ''_''
      then (case cs of
              [] \<Rightarrow> None
            | d # ds \<Rightarrow>
                (case digit_val d of
                   None \<Rightarrow> None
                 | Some v \<Rightarrow> parse_digits (10 * acc + v) ds))
      else (case digit_val c of
              None \<Rightarrow> None
            | Some v \<Rightarrow> parse_digits (10 * acc + v) cs))"

definition parse_unsigned :: "string \<Rightarrow> int option" where
  "parse_unsigned s =
     (case s of
        [] \<Rightarrow> None
      | c # cs \<Rightarrow> (case digit_val c of None \<Rightarrow> None | Some v \<Rightarrow> parse_digits v cs))"

definition max_str_digits :: nat where
  "max_str_digits = 4300"

definition int_of_str :: "string \<Rightarrow> int option" where
  "int_of_str s =
     (case strip s of
        [] \<Rightarrow> None
      | c # cs \<Rightarrow>
          if length (filter (\<lambda>d. digit_val d \<noteq> None) (c # cs)) > max_str_digits then None
          else if c = CHR ''+'' then parse_unsigned cs
          else if c = CHR ''-'' then map_option uminus (parse_unsigned cs)
          else parse_unsigned (c # cs))"

section \<open>The file system and standard output\<close>

text \<open>
  The program sees the file system through \<open>os.path.exists\<close>, \<open>os.path.isdir\<close>,
  \<open>os.listdir\<close>, \<open>Image.open\<close> and \<open>Image.save\<close>. A path names a directory, with the
  entry names \<open>os.listdir\<close> yields for it in the order it yields them, or a file. A file
  is represented by what \<open>Image.open(path).convert("RGB")\<close> makes of its content: the
  decoded three-channel image, or the exception raised for it. Standard output is the
  list of the lines printed so far.
\<close>

datatype node =
    Dir "string list"
  | File "exn + rgb image"

type_synonym files = "string \<Rightarrow> node option"

record world =
  fs :: files
  stdout :: "string list"

definition print_line :: "string \<Rightarrow> world \<Rightarrow> world" where
  "print_line s w = w\<lparr>stdout := stdout w @ [s]\<rparr>"

definition path_exists :: "world \<Rightarrow> string \<Rightarrow> bool" where
  "path_exists w p = (case fs w p of None \<Rightarrow> False | Some n \<Rightarrow> True)"

definition isdir :: "world \<Rightarrow> string \<Rightarrow> bool" where
  "isdir w p = (case fs w p of Some (Dir names) \<Rightarrow> True | _ \<Rightarrow> False)"

text \<open>
  The text of an OSError names the file as \<open>repr\<close> writes it. \<open>repr\<close> of a \<open>str\<close> puts
  it in single quotes, or in double quotes when it contains a single quote and no
  double quote; it escapes the backslash and the quote in use with a backslash, writes
  tab, line feed and carriage return as \<open>\t\<close>, \<open>\n\<close> and \<open>\r\<close>, and every other
  character that is not printable as \<open>\xhh\<close>. Below 256 the characters that are not
  printable are the control characters (below U+0020, and U+007F to U+009F), the
  no-break space U+00A0 and the soft hyphen U+00AD.
\<close>

definition hex_digit :: "nat \<Rightarrow> char" where
  "hex_digit n = ''0123456789abcdef'' ! (n mod 16)"

definition printable :: "char \<Rightarrow> bool" where
  "printable c \<longleftrightarrow>
     (let n = (of_char c :: nat)
      in 32 \<le> n \<and> n \<noteq> 127 \<and> \<not> (128 \<le> n \<and> n \<le> 160) \<and> n \<noteq> 173)"

definition repr_char :: "char \<Rightarrow> char \<Rightarrow> string" where
  "repr_char q c =
     (if c = q \<or> c = CHR 0x5C then [CHR 0x5C, c]
      else if c = CHR 0x09 then [CHR 0x5C, CHR ''t'']
      else if c = CHR 0x0A then [CHR 0x5C, CHR ''n'']
      else if c = CHR 0x0D then [CHR 0x5C, CHR ''r'']
      else if printable c then [c]
      else [CHR 0x5C, CHR ''x'', hex_digit (of_char c div 16), hex_digit (of_char c)])"

definition quoted :: "string \<Rightarrow> string" where
  "quoted p =
     (let q = (if CHR 0x27 \<in> set p \<and> CHR 0x22 \<notin> set p then CHR 0x22 else CHR 0x27)
      in [q] @ concat (map (repr_char q) p) @ [q])"

definition listdir :: "world \<Rightarrow> string \<Rightarrow> exn + string list" where
  "listdir w p =
     (case fs w p of
        None \<Rightarrow> Inl (FileNotFoundError (''[Errno 2] No such file or directory: '' @ quoted p))
      | Some (File c) \<Rightarrow> Inl (NotADirectoryError (''[Errno 20] Not a directory: '' @ quoted p))
      | Some (Dir names) \<Rightarrow> Inr names)"

text \<open>\<open>Image.open(path).convert("RGB")\<close>, line 40.\<close>

definition Image_open :: "world \<Rightarrow> string \<Rightarrow> exn + rgb image" where
  "Image_open w p =
     (case fs w p of
        None \<Rightarrow> Inl (FileNotFoundError (''[Errno 2] No such file or directory: '' @ quoted p))
      | Some (Dir names) \<Rightarrow> Inl (IsADirectoryError (''[Errno 21] Is a directory: '' @ quoted p))
      | Some (File c) \<Rightarrow> c)"

text \<open>
  Two effects are parameters of the model, since what they do depends on the codecs
  and on the operating system: \<open>save img path\<close> (Pillow's \<open>Image.save\<close>, which picks the
  format from the extension of \<open>path\<close>) and \<open>makedirs path\<close> (\<open>os.makedirs\<close>). Each
  takes the files and returns the files it leaves, and the exception if it raises one.
  A third parameter, \<open>int_error s\<close>, is the text of the ValueError that \<open>int(s)\<close>
  raises; the script never prints it.
\<close>

record env =
  save :: "rgb image \<Rightarrow> string \<Rightarrow> files \<Rightarrow> exn option \<times> files"
  makedirs :: "string \<Rightarrow> files \<Rightarrow> exn option \<times> files"
  int_error :: "string \<Rightarrow> string"

section \<open>The program\<close>

text \<open>
  \<open>create_anaglyph\<close>, lines 30 to 63. The result is the returned boolean, or the
  exception that leaves the function, together with the world after the call.
\<close>

definition create_anaglyph ::
  "env \<Rightarrow> string \<Rightarrow> string \<Rightarrow> int \<Rightarrow> world \<Rightarrow> (exn + bool) \<times> world" where
  "create_anaglyph e input_path output_path offset w =
     (case Image_open w input_path of
        Inl err \<Rightarrow>
          (Inr False, print_line (''Error opening '' @ input_path @ '': '' @ str_exn err) w)
      | Inr img \<Rightarrow>
          (case anaglyph_image img offset of
             Inl err \<Rightarrow> (Inl err, w)
           | Inr anaglyph \<Rightarrow>
               (case save e anaglyph output_path (fs w) of
                  (None, fs') \<Rightarrow>
                    (Inr True, print_line (''Anaglyph saved as '' @ output_path) (w\<lparr>fs := fs'\<rparr>))
                | (Some err, fs') \<Rightarrow>
                    (Inr False,
                     print_line (''Error saving '' @ output_path @ '': '' @ str_exn err)
                       (w\<lparr>fs := fs'\<rparr>)))))"

definition allowed_ext :: "string set" where
  "allowed_ext = {''.jpg'', ''.jpeg'', ''.png'', ''.bmp'', ''.tiff'', ''.tif''}"

text \<open>The body of the loop of \<open>process_directory\<close>, lines 81 to 89, for one entry.\<close>

definition process_entry ::
  "env \<Rightarrow> string \<Rightarrow> string \<Rightarrow> int \<Rightarrow> string \<Rightarrow> world \<Rightarrow> (exn + unit) \<times> world" where
  "process_entry e input_dir output_dir offset filename w =
     (let file_lower = lower filename;
          ext = snd (splitext file_lower)
      in if ext \<in> allowed_ext
         then (let input_file = path_join input_dir filename;
                   (base, ext_original) = splitext filename;
                   output_file = path_join output_dir (base @ ''_anaglyph'' @ ext_original)
               in case create_anaglyph e input_file output_file offset w of
                    (Inl err, w') \<Rightarrow> (Inl err, w')
                  | (Inr ok, w') \<Rightarrow> (Inr (), w'))
         else (Inr (), print_line (''Skipping non-image file: '' @ filename) w))"

text \<open>The \<open>for\<close> loop, line 80: an exception leaving the body ends the loop.\<close>

fun sweep ::
  "env \<Rightarrow> string \<Rightarrow> string \<Rightarrow> int \<Rightarrow> string list \<Rightarrow> world \<Rightarrow> (exn + unit) \<times> world" where
  "sweep e input_dir output_dir offset [] w = (Inr (), w)"
| "sweep e input_dir output_dir offset (filename # rest) w =
     (case process_entry e input_dir output_dir offset filename w of
        (Inl err, w') \<Rightarrow> (Inl err, w')
      | (Inr u, w') \<Rightarrow> sweep e input_dir output_dir offset rest w')"

text \<open>\<open>process_directory\<close>, lines 65 to 89.\<close>

definition process_directory ::
  "env \<Rightarrow> string \<Rightarrow> string \<Rightarrow> int \<Rightarrow> world \<Rightarrow> (exn + unit) \<times> world" where
  "process_directory e input_dir output_dir offset w =
     (case (if \<not> path_exists w output_dir then makedirs e output_dir (fs w)
            else (None, fs w)) of
        (Some err, fs') \<Rightarrow> (Inl err, w\<lparr>fs := fs'\<rparr>)
      | (None, fs') \<Rightarrow>
          (let w1 = w\<lparr>fs := fs'\<rparr>
           in case listdir w1 input_dir of
                Inl err \<Rightarrow> (Inl err, w1)
              | Inr names \<Rightarrow> sweep e input_dir output_dir offset names w1))"

text \<open>
  The script body, lines 91 to 107. A run ends with \<open>sys.exit(1)\<close>, by reaching the end
  of the script (exit code 0), or with an exception that nothing catches. In the last
  case the interpreter writes the traceback to standard error and the process ends
  with exit status 1.
\<close>

datatype outcome =
    Exit nat
  | Uncaught exn

fun exit_status :: "outcome \<Rightarrow> nat" where
  "exit_status (Exit n) = n"
| "exit_status (Uncaught err) = 1"

definition usage :: string where
  "usage = ''Usage: python create_anaglyph.py input_image_or_directory output_image_or_directory [offset]''"

definition main :: "env \<Rightarrow> string list \<Rightarrow> world \<Rightarrow> outcome \<times> world" where
  "main e argv w =
     (if length argv < 3 then (Exit 1, print_line usage w)
      else
        (let input_path = argv ! 1;
             output_path = argv ! 2
         in case (if length argv > 3 then int_of_str (argv ! 3) else Some 10) of
              None \<Rightarrow> (Uncaught (ValueError (int_error e (argv ! 3))), w)
            | Some offset_val \<Rightarrow>
                if isdir w input_path
                then (if \<not> isdir w output_path
                      then (Exit 1,
                            print_line
                              ''Error: When input is a directory, output must also be a directory.''
                              w)
                      else (case process_directory e input_path output_path offset_val w of
                              (Inl err, w') \<Rightarrow> (Uncaught err, w')
                            | (Inr u, w') \<Rightarrow> (Exit 0, w')))
                else (case create_anaglyph e input_path output_path offset_val w of
                        (Inl err, w') \<Rightarrow> (Uncaught err, w')
                      | (Inr ok, w') \<Rightarrow> (Exit 0, w'))))"

section \<open>Concrete inputs for the examples\<close>

text \<open>
  A 3 by 2 image, a directory tree with it, and two instances of the effects: one
  where every save and every \<open>makedirs\<close> succeeds and stores what it is given, one
  where every save is refused.
\<close>

definition sample_image :: "rgb image" where
  "sample_image =
     \<lparr>xsize = 3, ysize = 2,
      im = [[(1, 2, 3), (4, 5, 6), (7, 8, 9)],
            [(10, 11, 12), (13, 14, 15), (16, 17, 18)]]\<rparr>"

definition storing_env :: env where
  "storing_env =
     \<lparr>save = (\<lambda>img path files. (None, files(path \<mapsto> File (Inr img)))),
      makedirs = (\<lambda>path files. (None, files(path \<mapsto> Dir []))),
      int_error = (\<lambda>s. ''invalid literal for int() with base 10: '' @ quoted s)\<rparr>"

definition refusing_env :: env where
  "refusing_env =
     \<lparr>save = (\<lambda>img path files.
        (Some (OSError (''[Errno 13] Permission denied: '' @ quoted path)), files)),
      makedirs = (\<lambda>path files.
        (Some (OSError (''[Errno 13] Permission denied: '' @ quoted path)), files)),
      int_error = (\<lambda>s. ''invalid literal for int() with base 10: '' @ quoted s)\<rparr>"

definition sample_files :: files where
  "sample_files =
     [''in'' \<mapsto> Dir [''photo.JPG'', ''notes.txt'', ''pic.png''],
      ''in/photo.JPG'' \<mapsto> File (Inr sample_image),
      ''in/notes.txt'' \<mapsto> File (Inl (UnidentifiedImageError ''cannot identify image file'')),
      ''in/pic.png'' \<mapsto> File (Inl (UnidentifiedImageError ''cannot identify image file'')),
      ''shots'' \<mapsto> Dir [''album.jpg'', ''raw''],
      ''shots/album.jpg'' \<mapsto> Dir [''inner.png''],
      ''shots/album.jpg/inner.png'' \<mapsto> File (Inr sample_image),
      ''shots/raw'' \<mapsto> Dir [],
      ''out'' \<mapsto> Dir []]"

definition sample_world :: world where
  "sample_world = \<lparr>fs = sample_files, stdout = []\<rparr>"

section \<open>Properties of the recombination\<close>

lemma anaglyph_image_eq:
  "anaglyph_image img k =
     Inr \<lparr>xsize = xsize img, ysize = ysize img,
          im = map (\<lambda>(rr, gr, br). zip rr (zip gr br))
                 (zip (map (map red) (map (rotate (nat (k mod int (xsize img)))) (im img)))
                    (zip (map (map green) (im img)) (map (map blue) (im img))))\<rparr>"
  by (simp add: anaglyph_image_def Image_split_def Image_merge_def band_def
      ImageChops_offset_def Let_def)

lemma zip3_row:
  assumes "length rr = n" "length row = n"
  shows "zip (map red rr) (zip (map green row) (map blue row)) =
         map (\<lambda>i. (red (rr ! i), green (row ! i), blue (row ! i))) [0..<n]"
  using assms by (auto intro!: nth_equalityI)

lemma anaglyph_rows:
  assumes "valid_image img"
  shows "im (projr (anaglyph_image img k)) =
         map (\<lambda>row. map (\<lambda>i. (red (rotate (nat (k mod int (xsize img))) row ! i),
                               green (row ! i), blue (row ! i))) [0..<xsize img]) (im img)"
proof -
  have len: "\<And>row. row \<in> set (im img) \<Longrightarrow> length row = xsize img"
    using assms by (simp add: valid_image_def list_all_iff)
  show ?thesis
    unfolding anaglyph_image_eq
    by (auto intro!: nth_equalityI simp: zip3_row len)
qed

lemma shifted_index:
  assumes "0 < w" "x < w"
  shows "(nat (k mod int w) + x) mod w = nat ((int x + k) mod int w)"
proof -
  have "int ((nat (k mod int w) + x) mod w) = (k mod int w + int x) mod int w"
    using assms by (simp add: zmod_int)
  also have "\<dots> = (int x + k) mod int w"
    by (subst mod_add_left_eq) (simp add: add.commute)
  finally show ?thesis by linarith
qed




lemma red_plane_shift:
  assumes "valid_image img" "0 < xsize img" "x < xsize img" "y < ysize img"
  shows "\<exists>out. anaglyph_image img k = Inr out \<and>
           map_option red (getpixel out x y) =
             map_option red (getpixel img (nat ((int x + k) mod int (xsize img))) y) \<and>
           anaglyph_image img (k mod int (xsize img)) = Inr out"
proof -
  let ?W = "xsize img"
  let ?out = "projr (anaglyph_image img k)"
  have res: "anaglyph_image img k = Inr ?out"
    by (simp add: anaglyph_image_eq)
  have sz: "xsize ?out = ?W" "ysize ?out = ysize img"
    by (simp_all add: anaglyph_image_eq)
  have ylen: "y < length (im img)"
    using assms by (simp add: valid_image_def)
  then have rowlen: "length (im img ! y) = ?W"
    using assms(1) by (simp add: valid_image_def list_all_length)
  have col: "nat ((int x + k) mod int ?W) < ?W"
    using assms(2) by (simp add: nat_less_iff)
  have "im ?out ! y ! x = (red (rotate (nat (k mod int ?W)) (im img ! y) ! x),
          green (im img ! y ! x), blue (im img ! y ! x))"
    using assms ylen by (simp add: anaglyph_rows)
  moreover have "rotate (nat (k mod int ?W)) (im img ! y) ! x =
      im img ! y ! nat ((int x + k) mod int ?W)"
    using assms rowlen by (simp add: nth_rotate shifted_index)
  ultimately have px: "red (im ?out ! y ! x) = red (im img ! y ! nat ((int x + k) mod int ?W))"
    by (simp add: red_def)
  have same: "anaglyph_image img (k mod int ?W) = anaglyph_image img k"
    by (simp add: anaglyph_image_eq)
  have "map_option red (getpixel ?out x y) =
      map_option red (getpixel img (nat ((int x + k) mod int ?W)) y)"
    using sz px col assms by (simp add: getpixel_def)
  moreover have "anaglyph_image img (k mod int ?W) = Inr ?out"
    using same res by (rule trans)
  ultimately show ?thesis
    using res by blast
qed







section \<open>Properties of the converter\<close>

text \<open>
  The recombination never raises, so \<open>create_anaglyph\<close> always returns a boolean, the
  loop body and the loop always finish, and so does \<open>process_directory\<close> when the
  listing of the input directory succeeds and the output directory exists. When the
  image loads, the image handed to \<open>save\<close> is the result of the recombination.
\<close>

lemma create_anaglyph_returns:
  "\<exists>ok w'. create_anaglyph e input_path output_path offset w = (Inr ok, w')"
  by (auto simp: create_anaglyph_def anaglyph_image_eq split: sum.splits option.splits prod.splits)

lemma create_anaglyph_saves:
  assumes "Image_open w input_path = Inr img"
  shows "\<exists>anaglyph. anaglyph_image img offset = Inr anaglyph \<and>
           create_anaglyph e input_path output_path offset w =
             (case save e anaglyph output_path (fs w) of
                (None, fs') \<Rightarrow>
                  (Inr True, print_line (''Anaglyph saved as '' @ output_path) (w\<lparr>fs := fs'\<rparr>))
              | (Some err, fs') \<Rightarrow>
                  (Inr False,
                   print_line (''Error saving '' @ output_path @ '': '' @ str_exn err)
                     (w\<lparr>fs := fs'\<rparr>)))"
  using assms by (simp add: create_anaglyph_def anaglyph_image_eq)

lemma process_entry_returns:
  "\<exists>w'. process_entry e input_dir output_dir offset filename w = (Inr (), w')"
proof -
  obtain ok w' where "create_anaglyph e (path_join input_dir filename)
      (path_join output_dir (fst (splitext filename) @ ''_anaglyph'' @ snd (splitext filename)))
      offset w = (Inr ok, w')"
    using create_anaglyph_returns by blast
  then show ?thesis
    by (simp add: process_entry_def Let_def split_beta)
qed

lemma sweep_returns:
  "\<exists>w'. sweep e input_dir output_dir offset names w = (Inr (), w')"
proof (induction names arbitrary: w)
  case Nil
  show ?case by simp
next
  case (Cons filename rest)
  obtain w1 where "process_entry e input_dir output_dir offset filename w = (Inr (), w1)"
    using process_entry_returns by blast
  then show ?case using Cons.IH [of w1] by simp
qed

lemma process_directory_returns:
  assumes "isdir w input_dir" "path_exists w output_dir"
  shows "\<exists>w'. process_directory e input_dir output_dir offset w = (Inr (), w')"
proof -
  obtain names where n: "fs w input_dir = Some (Dir names)"
    using assms(1) by (auto simp: isdir_def split: option.splits node.splits)
  have "process_directory e input_dir output_dir offset w =
      sweep e input_dir output_dir offset names w"
    using assms(2) n by (simp add: process_directory_def listdir_def)
  then show ?thesis using sweep_returns by simp
qed

lemma isdir_exists: "isdir w p \<Longrightarrow> path_exists w p"
  by (auto simp: isdir_def path_exists_def split: option.splits)

text \<open>
  C1. When the image at the input path loads as a valid RGB image of width \<open>W > 0\<close>,
  \<open>create_anaglyph\<close> hands to \<open>save\<close> an image whose red channel at column \<open>x\<close>, row
  \<open>y\<close> is the red channel of the loaded image at column \<open>(x + k) mod W\<close> of the same
  row, for every position of the grid and every integer offset \<open>k\<close>: a circular shift
  to the left by \<open>k\<close> with no vertical shift. The call with offset \<open>k mod W\<close> does the
  same as the call with offset \<open>k\<close>.
\<close>

theorem red_channel_circular_shift:
  assumes "Image_open w input_path = Inr img" "valid_image img" "0 < xsize img"
  shows "\<exists>out. create_anaglyph e input_path output_path k w =
             (case save e out output_path (fs w) of
                (None, fs') \<Rightarrow>
                  (Inr True, print_line (''Anaglyph saved as '' @ output_path) (w\<lparr>fs := fs'\<rparr>))
              | (Some err, fs') \<Rightarrow>
                  (Inr False,
                   print_line (''Error saving '' @ output_path @ '': '' @ str_exn err)
                     (w\<lparr>fs := fs'\<rparr>))) \<and>
           (\<forall>x y. x < xsize img \<longrightarrow> y < ysize img \<longrightarrow>
              map_option red (getpixel out x y) =
                map_option red (getpixel img (nat ((int x + k) mod int (xsize img))) y)) \<and>
           create_anaglyph e input_path output_path (k mod int (xsize img)) w =
             create_anaglyph e input_path output_path k w"
proof -
  obtain out where out: "anaglyph_image img k = Inr out"
    and call: "create_anaglyph e input_path output_path k w =
             (case save e out output_path (fs w) of
                (None, fs') \<Rightarrow>
                  (Inr True, print_line (''Anaglyph saved as '' @ output_path) (w\<lparr>fs := fs'\<rparr>))
              | (Some err, fs') \<Rightarrow>
                  (Inr False,
                   print_line (''Error saving '' @ output_path @ '': '' @ str_exn err)
                     (w\<lparr>fs := fs'\<rparr>)))"
    using create_anaglyph_saves [OF assms(1)] by blast
  have px: "map_option red (getpixel out x y) =
      map_option red (getpixel img (nat ((int x + k) mod int (xsize img))) y)"
    if "x < xsize img" "y < ysize img" for x y
    using red_plane_shift [OF assms(2) assms(3) that, of k] out by auto
  have "anaglyph_image img (k mod int (xsize img)) = anaglyph_image img k"
    by (simp add: anaglyph_image_eq)
  then have same: "create_anaglyph e input_path output_path (k mod int (xsize img)) w =
      create_anaglyph e input_path output_path k w"
    using assms(1) by (simp add: create_anaglyph_def)
  show ?thesis
    using call px same by blast
qed

theorem red_channel_circular_shift_witness:
  "Image_open sample_world ''in/photo.JPG'' = Inr sample_image \<and>
   valid_image sample_image \<and> 0 < xsize sample_image \<and>
   (\<exists>out. fs (snd (create_anaglyph storing_env ''in/photo.JPG'' ''out/a.png'' 5 sample_world))
        ''out/a.png'' = Some (File (Inr out)) \<and>
      map_option red (getpixel out 2 0) = Some 4 \<and>
      map_option red (getpixel out 0 1) = Some 16)"
proof -
  have o: "Image_open sample_world ''in/photo.JPG'' = Inr sample_image"
    by (simp add: Image_open_def sample_world_def sample_files_def)
  have v: "valid_image sample_image"
    by (simp add: sample_image_def valid_image_def)
  have p: "0 < xsize sample_image"
    by (simp add: sample_image_def)
  from red_channel_circular_shift [OF o v p, of storing_env "''out/a.png''" 5]
  obtain out where
    call: "create_anaglyph storing_env ''in/photo.JPG'' ''out/a.png'' 5 sample_world =
        (case save storing_env out ''out/a.png'' (fs sample_world) of
           (None, fs') \<Rightarrow>
             (Inr True, print_line (''Anaglyph saved as '' @ ''out/a.png'')
                (sample_world\<lparr>fs := fs'\<rparr>))
         | (Some err, fs') \<Rightarrow>
             (Inr False, print_line (''Error saving '' @ ''out/a.png'' @ '': '' @ str_exn err)
                (sample_world\<lparr>fs := fs'\<rparr>)))"
    and px: "\<forall>x y. x < xsize sample_image \<longrightarrow> y < ysize sample_image \<longrightarrow>
        map_option red (getpixel out x y) =
          map_option red (getpixel sample_image
            (nat ((int x + 5) mod int (xsize sample_image))) y)"
    by blast
  have stored: "fs (snd (create_anaglyph storing_env ''in/photo.JPG'' ''out/a.png'' 5
      sample_world)) ''out/a.png'' = Some (File (Inr out))"
    unfolding call by (simp add: storing_env_def print_line_def)
  have "map_option red (getpixel out 2 0) =
      map_option red (getpixel sample_image (nat ((int 2 + 5) mod int (xsize sample_image))) 0)"
    using px by (simp add: sample_image_def)
  then have r1: "map_option red (getpixel out 2 0) = Some 4"
    by (simp add: sample_image_def getpixel_def red_def)
  have "map_option red (getpixel out 0 1) =
      map_option red (getpixel sample_image (nat ((int 0 + 5) mod int (xsize sample_image))) 1)"
    using px by (simp add: sample_image_def)
  then have r2: "map_option red (getpixel out 0 1) = Some 16"
    by (simp add: sample_image_def getpixel_def red_def)
  show ?thesis
    using o v p stored r1 r2 by blast
qed

text \<open>
  C5. When the image at the input path cannot be loaded (no such file, a directory,
  content that cannot be decoded), \<open>create_anaglyph\<close> prints one line with the path and
  the text of the exception, returns \<open>False\<close> without raising, and leaves the files as
  they were: the save step is not reached.
\<close>

theorem load_failure_reported:
  assumes "Image_open w input_path = Inl err"
  shows "create_anaglyph e input_path output_path offset w =
           (Inr False, print_line (''Error opening '' @ input_path @ '': '' @ str_exn err) w) \<and>
         fs (snd (create_anaglyph e input_path output_path offset w)) = fs w \<and>
         stdout (snd (create_anaglyph e input_path output_path offset w)) =
           stdout w @ [''Error opening '' @ input_path @ '': '' @ str_exn err]"
  using assms by (simp add: create_anaglyph_def print_line_def)

theorem load_failure_reported_witness:
  "Image_open sample_world ''missing.jpg'' =
     Inl (FileNotFoundError (''[Errno 2] No such file or directory: '' @ quoted ''missing.jpg'')) \<and>
   fst (create_anaglyph storing_env ''missing.jpg'' ''out.jpg'' 10 sample_world) = Inr False \<and>
   fs (snd (create_anaglyph storing_env ''missing.jpg'' ''out.jpg'' 10 sample_world)) ''out.jpg''
     = None \<and>
   stdout (snd (create_anaglyph storing_env ''missing.jpg'' ''out.jpg'' 10 sample_world)) =
     [''Error opening missing.jpg: [Errno 2] No such file or directory: '' @ quoted ''missing.jpg'']"
proof -
  have o: "Image_open sample_world ''missing.jpg'' =
     Inl (FileNotFoundError (''[Errno 2] No such file or directory: '' @ quoted ''missing.jpg''))"
    by (simp add: Image_open_def sample_world_def sample_files_def)
  have f: "fs sample_world ''out.jpg'' = None"
    by (simp add: sample_world_def sample_files_def)
  have s: "stdout sample_world = []"
    by (simp add: sample_world_def)
  show ?thesis
    using load_failure_reported [OF o, of storing_env "''out.jpg''" 10] o f s
    by (simp add: print_line_def)
qed

section \<open>Properties of the batch driver\<close>

text \<open>
  Lower-casing changes neither dots nor separators, so the extension of the
  lower-cased name is the lower-cased extension of the name.
\<close>

lemma lower_char_dot [simp]: "lower_char c = CHR ''.'' \<longleftrightarrow> c = CHR ''.''"
proof -
  have "of_char (lower_char c) = (46::nat) \<longleftrightarrow> of_char c = (46::nat)"
    by (auto simp: lower_char_def Let_def)
  moreover have "of_char (CHR ''.'') = (46::nat)" by simp
  ultimately show ?thesis
    by (metis of_char_eq_iff)
qed

lemma lower_char_sep [simp]: "lower_char c = CHR ''/'' \<longleftrightarrow> c = CHR ''/''"
proof -
  have "of_char (lower_char c) = (47::nat) \<longleftrightarrow> of_char c = (47::nat)"
    by (auto simp: lower_char_def Let_def)
  moreover have "of_char (CHR ''/'') = (47::nat)" by simp
  ultimately show ?thesis
    by (metis of_char_eq_iff)
qed

lemma rfind_lower_dot: "rfind (lower p) CHR ''.'' = rfind p CHR ''.''"
  by (induction p) (simp_all add: lower_def Let_def)

lemma rfind_lower_sep: "rfind (lower p) CHR ''/'' = rfind p CHR ''/''"
  by (induction p) (simp_all add: lower_def Let_def)

lemma rfind_bounds: "- 1 \<le> rfind p c \<and> rfind p c < int (length p)"
  by (induction p) (auto simp: Let_def)

lemma skip_leading_dots_lower:
  "j \<le> length p \<Longrightarrow> skip_leading_dots (lower p) i j = skip_leading_dots p i j"
proof (induction p i j rule: skip_leading_dots.induct)
  case (1 p filenameIndex dotIndex)
  show ?case
  proof (cases "filenameIndex < dotIndex")
    case True
    then have "lower p ! filenameIndex = lower_char (p ! filenameIndex)"
      using "1.prems" by (simp add: lower_def)
    then show ?thesis
      using True "1.IH" "1.prems"
      by (subst skip_leading_dots.simps, subst (2) skip_leading_dots.simps) auto
  next
    case False
    then show ?thesis
      by (subst skip_leading_dots.simps, subst (2) skip_leading_dots.simps) simp
  qed
qed

lemma splitext_lower:
  "splitext (lower p) = (lower (fst (splitext p)), lower (snd (splitext p)))"
proof -
  have "nat (rfind p CHR ''.'') \<le> length p"
    using rfind_bounds [of p "CHR ''.''"] by linarith
  then show ?thesis
    by (simp add: splitext_def Let_def rfind_lower_dot rfind_lower_sep skip_leading_dots_lower)
       (simp add: lower_def take_map drop_map)
qed

lemma splitext_append: "fst (splitext p) @ snd (splitext p) = p"
  by (simp add: splitext_def Let_def)

lemma rfind_nth: "0 \<le> rfind p c \<Longrightarrow> p ! nat (rfind p c) = c"
proof (induction p)
  case Nil
  then show ?case by simp
next
  case (Cons x xs)
  show ?case
  proof (cases "0 \<le> rfind xs c")
    case True
    then have "nat (rfind xs c + 1) = Suc (nat (rfind xs c))" by simp
    then show ?thesis using True Cons.IH by (simp add: Let_def)
  next
    case False
    then show ?thesis using Cons.prems by (simp add: Let_def split: if_splits)
  qed
qed

lemma splitext_dot: "snd (splitext p) = [] \<or> hd (snd (splitext p)) = CHR ''.''"
proof (cases "0 \<le> rfind p CHR ''.''")
  case True
  have "nat (rfind p CHR ''.'') < length p"
    using rfind_bounds [of p "CHR ''.''"] True by linarith
  then have "hd (drop (nat (rfind p CHR ''.'')) p) = CHR ''.''"
    using rfind_nth [OF True] by (simp add: hd_drop_conv_nth)
  then show ?thesis by (simp add: splitext_def Let_def)
next
  case False
  moreover have "- 1 \<le> rfind p CHR ''/''"
    using rfind_bounds [of p "CHR ''/''"] by simp
  ultimately show ?thesis by (simp add: splitext_def Let_def)
qed

lemma create_anaglyph_one_line:
  "\<exists>line. stdout (snd (create_anaglyph e input_path output_path offset w)) = stdout w @ [line]"
  by (auto simp: create_anaglyph_def anaglyph_image_eq print_line_def
      split: sum.splits option.splits prod.splits)

lemma process_entry_eq:
  "process_entry e input_dir output_dir offset filename w =
     (if lower (snd (splitext filename)) \<in> allowed_ext
      then (Inr (), snd (create_anaglyph e (path_join input_dir filename)
              (path_join output_dir
                 (fst (splitext filename) @ ''_anaglyph'' @ snd (splitext filename)))
              offset w))
      else (Inr (), w\<lparr>stdout := stdout w @ [''Skipping non-image file: '' @ filename]\<rparr>))"
proof -
  obtain ok w' where "create_anaglyph e (path_join input_dir filename)
      (path_join output_dir (fst (splitext filename) @ ''_anaglyph'' @ snd (splitext filename)))
      offset w = (Inr ok, w')"
    using create_anaglyph_returns by blast
  then show ?thesis
    by (simp add: process_entry_def Let_def split_beta splitext_lower print_line_def)
qed

lemma process_entry_one_line:
  "\<exists>line. stdout (snd (process_entry e input_dir output_dir offset filename w)) =
     stdout w @ [line]"
  using create_anaglyph_one_line by (simp add: process_entry_eq)

lemma sweep_Cons:
  "sweep e input_dir output_dir offset (filename # rest) w =
     sweep e input_dir output_dir offset rest
       (snd (process_entry e input_dir output_dir offset filename w))"
proof -
  obtain w1 where "process_entry e input_dir output_dir offset filename w = (Inr (), w1)"
    using process_entry_returns by blast
  then show ?thesis by simp
qed

lemma sweep_append:
  "sweep e input_dir output_dir offset (xs @ ys) w =
     sweep e input_dir output_dir offset ys (snd (sweep e input_dir output_dir offset xs w))"
proof (induction xs arbitrary: w)
  case Nil
  show ?case by simp
next
  case (Cons x xs)
  show ?case
    unfolding append_Cons sweep_Cons by (rule Cons.IH)
qed

lemma sweep_lines:
  "length (stdout (snd (sweep e input_dir output_dir offset names w))) =
     length (stdout w) + length names"
proof (induction names arbitrary: w)
  case Nil
  show ?case by simp
next
  case (Cons x xs)
  obtain line where "stdout (snd (process_entry e input_dir output_dir offset x w)) =
      stdout w @ [line]"
    using process_entry_one_line by blast
  then show ?case
    unfolding sweep_Cons by (simp add: Cons.IH)
qed

text \<open>
  C7. An entry is classified by the lower-cased extension of its name against the six
  allowed extensions. A matching entry goes to \<open>create_anaglyph\<close> with the input path
  in the input directory, the output name made of the base name, \<open>_anaglyph\<close> and the
  extension as it was written, and the shared offset. Any other entry only adds its
  skip notice to the output and leaves the files alone. Base name and extension make
  up the name, the extension is empty or starts with a dot, and the loop hands every
  entry of the listing to this body in turn.
\<close>

theorem process_entry_classification:
  "process_entry e input_dir output_dir offset filename w =
     (if lower (snd (splitext filename)) \<in> allowed_ext
      then (Inr (), snd (create_anaglyph e (path_join input_dir filename)
              (path_join output_dir
                 (fst (splitext filename) @ ''_anaglyph'' @ snd (splitext filename)))
              offset w))
      else (Inr (), w\<lparr>stdout := stdout w @ [''Skipping non-image file: '' @ filename]\<rparr>)) \<and>
   fst (splitext filename) @ snd (splitext filename) = filename \<and>
   (snd (splitext filename) = [] \<or> hd (snd (splitext filename)) = CHR ''.'') \<and>
   sweep e input_dir output_dir offset (filename # rest) w =
     sweep e input_dir output_dir offset rest
       (snd (process_entry e input_dir output_dir offset filename w))"
  using process_entry_eq splitext_append splitext_dot sweep_Cons by blast

theorem process_entry_classification_witness:
  "lower (snd (splitext ''photo.JPG'')) \<in> allowed_ext \<and>
   process_entry storing_env ''in'' ''out'' 10 ''photo.JPG'' sample_world =
     (Inr (), snd (create_anaglyph storing_env ''in/photo.JPG'' ''out/photo_anaglyph.JPG'' 10
        sample_world)) \<and>
   lower (snd (splitext ''notes.txt'')) \<notin> allowed_ext \<and>
   process_entry storing_env ''in'' ''out'' 10 ''notes.txt'' sample_world =
     (Inr (), sample_world\<lparr>stdout := stdout sample_world @
        [''Skipping non-image file: notes.txt'']\<rparr>)"
proof -
  have p: "splitext ''photo.JPG'' = (''photo'', ''.JPG'')"
    by code_simp
  have n: "splitext ''notes.txt'' = (''notes'', ''.txt'')"
    by code_simp
  have lp: "lower ''.JPG'' = ''.jpg''" and ln: "lower ''.txt'' = ''.txt''"
    by code_simp+
  have j: "path_join ''in'' ''photo.JPG'' = ''in/photo.JPG''"
    "path_join ''out'' ''photo_anaglyph.JPG'' = ''out/photo_anaglyph.JPG''"
    by (simp_all add: path_join_def)
  have a: "''.jpg'' \<in> allowed_ext" "''.txt'' \<notin> allowed_ext"
    by (simp_all add: allowed_ext_def)
  show ?thesis
    using process_entry_classification [of storing_env "''in''" "''out''" 10 "''photo.JPG''"
        sample_world "[]"]
      process_entry_classification [of storing_env "''in''" "''out''" 10 "''notes.txt''"
        sample_world "[]"]
    by (simp add: p n lp ln j a)
qed

text \<open>
  C8, as the code has it. A subdirectory is never listed or entered: the entry is
  handled by its name alone, whatever it contains. When the name has no allowed
  extension it is skipped with a notice. When the name has an allowed extension the
  subdirectory is passed to \<open>create_anaglyph\<close> like a file of that name, loading fails
  because it is a directory, the error is printed, and no file is written.
\<close>

theorem subdirectory_entry:
  assumes "fs w (path_join input_dir filename) = Some (Dir names)"
  shows "process_entry e input_dir output_dir offset filename w =
           (Inr (), print_line
              (if lower (snd (splitext filename)) \<in> allowed_ext
               then ''Error opening '' @ path_join input_dir filename @
                    '': [Errno 21] Is a directory: '' @ quoted (path_join input_dir filename)
               else ''Skipping non-image file: '' @ filename) w) \<and>
         (lower (snd (splitext filename)) \<in> allowed_ext \<longrightarrow>
            process_entry e input_dir output_dir offset filename w =
              (Inr (), snd (create_anaglyph e (path_join input_dir filename)
                 (path_join output_dir
                    (fst (splitext filename) @ ''_anaglyph'' @ snd (splitext filename)))
                 offset w)))"
proof -
  have "Image_open w (path_join input_dir filename) =
      Inl (IsADirectoryError (''[Errno 21] Is a directory: '' @ quoted (path_join input_dir filename)))"
    using assms by (simp add: Image_open_def)
  then have "snd (create_anaglyph e (path_join input_dir filename) out offset w) =
      print_line (''Error opening '' @ path_join input_dir filename @
                    '': [Errno 21] Is a directory: '' @ quoted (path_join input_dir filename)) w"
    for out
    by (simp add: create_anaglyph_def)
  then show ?thesis
    by (simp add: process_entry_eq print_line_def)
qed

theorem subdirectory_entry_witness:
  "fs sample_world (path_join ''shots'' ''raw'') = Some (Dir []) \<and>
   lower (snd (splitext ''raw'')) \<notin> allowed_ext \<and>
   process_entry storing_env ''shots'' ''out'' 10 ''raw'' sample_world =
     (Inr (), print_line ''Skipping non-image file: raw'' sample_world) \<and>
   fs sample_world (path_join ''shots'' ''album.jpg'') = Some (Dir [''inner.png'']) \<and>
   lower (snd (splitext ''album.jpg'')) \<in> allowed_ext \<and>
   process_entry storing_env ''shots'' ''out'' 10 ''album.jpg'' sample_world =
     (Inr (), print_line (''Error opening shots/album.jpg: [Errno 21] Is a directory: ''
        @ quoted ''shots/album.jpg'') sample_world)"
proof -
  have d: "fs sample_world (path_join ''shots'' ''raw'') = Some (Dir [])"
    by (simp add: path_join_def sample_world_def sample_files_def)
  have x: "lower (snd (splitext ''raw'')) = []"
    by code_simp
  have a: "[] \<notin> allowed_ext"
    by (simp add: allowed_ext_def)
  have d': "fs sample_world (path_join ''shots'' ''album.jpg'') = Some (Dir [''inner.png''])"
    by (simp add: path_join_def sample_world_def sample_files_def)
  have j: "path_join ''shots'' ''album.jpg'' = ''shots/album.jpg''"
    by (simp add: path_join_def)
  have x': "lower (snd (splitext ''album.jpg'')) = ''.jpg''"
    by code_simp
  have a': "''.jpg'' \<in> allowed_ext"
    by (simp add: allowed_ext_def)
  have raw: "process_entry storing_env ''shots'' ''out'' 10 ''raw'' sample_world =
     (Inr (), print_line ''Skipping non-image file: raw'' sample_world)"
    using subdirectory_entry [OF d, of storing_env "''out''" 10]
    by (simp add: x a)
  have album: "process_entry storing_env ''shots'' ''out'' 10 ''album.jpg'' sample_world =
     (Inr (), print_line (''Error opening shots/album.jpg: [Errno 21] Is a directory: ''
        @ quoted ''shots/album.jpg'') sample_world)"
    using subdirectory_entry [OF d', of storing_env "''out''" 10]
    by (simp add: x' a' j)
  show ?thesis
    using d d' raw album by (simp add: x x' a a')
qed

text \<open>
  C8 as stated says that a subdirectory is never passed to the converter, whatever its
  name. The subdirectory \<open>album.jpg\<close> of \<open>shots\<close> is passed to it: the entry yields the
  converter's error line and not a skip notice.
\<close>

theorem subdirectory_skipped_counterexample:
  "fs sample_world (path_join ''shots'' ''album.jpg'') = Some (Dir [''inner.png'']) \<and>
   process_entry storing_env ''shots'' ''out'' 10 ''album.jpg'' sample_world =
     (Inr (), snd (create_anaglyph storing_env ''shots/album.jpg'' ''out/album_anaglyph.jpg'' 10
        sample_world)) \<and>
   stdout (snd (process_entry storing_env ''shots'' ''out'' 10 ''album.jpg'' sample_world)) =
     [''Error opening shots/album.jpg: [Errno 21] Is a directory: '' @ quoted ''shots/album.jpg''] \<and>
   stdout (snd (process_entry storing_env ''shots'' ''out'' 10 ''album.jpg'' sample_world)) \<noteq>
     [''Skipping non-image file: album.jpg'']"
proof -
  have d: "fs sample_world ''shots/album.jpg'' = Some (Dir [''inner.png''])"
    by (simp add: sample_world_def sample_files_def)
  have j: "path_join ''shots'' ''album.jpg'' = ''shots/album.jpg''"
    "path_join ''out'' ''album_anaglyph.jpg'' = ''out/album_anaglyph.jpg''"
    by (simp_all add: path_join_def)
  have p: "splitext ''album.jpg'' = (''album'', ''.jpg'')"
    by code_simp
  have l: "lower ''.jpg'' = ''.jpg''"
    by code_simp
  have a: "''.jpg'' \<in> allowed_ext"
    by (simp add: allowed_ext_def)
  have s: "stdout sample_world = []"
    by (simp add: sample_world_def)
  have e: "process_entry storing_env ''shots'' ''out'' 10 ''album.jpg'' sample_world =
     (Inr (), snd (create_anaglyph storing_env ''shots/album.jpg'' ''out/album_anaglyph.jpg'' 10
        sample_world))"
    by (simp add: process_entry_eq p l a j)
  have c: "stdout (snd (create_anaglyph storing_env ''shots/album.jpg''
        ''out/album_anaglyph.jpg'' 10 sample_world)) =
     [''Error opening shots/album.jpg: [Errno 21] Is a directory: '' @ quoted ''shots/album.jpg'']"
    by (simp add: create_anaglyph_def Image_open_def d print_line_def s)
  show ?thesis
    using d e c by (simp add: j)
qed

text \<open>
  C9. Let the output directory exist, or let \<open>makedirs\<close> create it without raising,
  and let the input directory then list the entries \<open>xs\<close>, then \<open>filename\<close>, then
  \<open>ys\<close>. Then \<open>process_directory\<close> handles all of them: the entries before, this
  entry (by \<open>create_anaglyph\<close> when it matches, whatever that returns), and all entries
  after it. It returns nothing but \<open>None\<close>, and the output has grown by one line for
  each entry.
\<close>

theorem sweep_never_halts:
  assumes "(if \<not> path_exists w output_dir then makedirs e output_dir (fs w) else (None, fs w))
             = (None, files)"
    and "files input_dir = Some (Dir (xs @ filename # ys))"
  shows "\<exists>w1 w2 w3.
           sweep e input_dir output_dir offset xs (w\<lparr>fs := files\<rparr>) = (Inr (), w1) \<and>
           process_entry e input_dir output_dir offset filename w1 = (Inr (), w2) \<and>
           (lower (snd (splitext filename)) \<in> allowed_ext \<longrightarrow>
              w2 = snd (create_anaglyph e (path_join input_dir filename)
                     (path_join output_dir
                        (fst (splitext filename) @ ''_anaglyph'' @ snd (splitext filename)))
                     offset w1)) \<and>
           sweep e input_dir output_dir offset ys w2 = (Inr (), w3) \<and>
           process_directory e input_dir output_dir offset w = (Inr (), w3) \<and>
           length (stdout w3) = length (stdout w) + length xs + 1 + length ys"
proof -
  let ?w0 = "w\<lparr>fs := files\<rparr>"
  obtain w1 where w1: "sweep e input_dir output_dir offset xs ?w0 = (Inr (), w1)"
    using sweep_returns by blast
  obtain w2 where w2: "process_entry e input_dir output_dir offset filename w1 = (Inr (), w2)"
    using process_entry_returns by blast
  obtain w3 where w3: "sweep e input_dir output_dir offset ys w2 = (Inr (), w3)"
    using sweep_returns by blast
  have conv: "lower (snd (splitext filename)) \<in> allowed_ext \<longrightarrow>
      w2 = snd (create_anaglyph e (path_join input_dir filename)
             (path_join output_dir
                (fst (splitext filename) @ ''_anaglyph'' @ snd (splitext filename)))
             offset w1)"
    using w2 by (auto simp: process_entry_eq split: if_splits)
  have all: "sweep e input_dir output_dir offset (xs @ filename # ys) ?w0 = (Inr (), w3)"
    using w1 w2 w3 by (simp add: sweep_append sweep_Cons)
  have "process_directory e input_dir output_dir offset w =
      sweep e input_dir output_dir offset (xs @ filename # ys) ?w0"
    using assms by (simp add: process_directory_def listdir_def Let_def)
  then have pd: "process_directory e input_dir output_dir offset w = (Inr (), w3)"
    using all by simp
  have "length (stdout (snd (sweep e input_dir output_dir offset (xs @ filename # ys) ?w0))) =
      length (stdout ?w0) + length (xs @ filename # ys)"
    by (rule sweep_lines)
  then have len: "length (stdout w3) = length (stdout w) + length xs + 1 + length ys"
    using all by simp
  show ?thesis
    using w1 w2 w3 conv pd len by blast
qed

theorem sweep_never_halts_witness:
  "(if \<not> path_exists sample_world ''out''
    then makedirs refusing_env ''out'' (fs sample_world) else (None, fs sample_world))
     = (None, fs sample_world) \<and>
   fs sample_world ''in'' = Some (Dir ([] @ ''photo.JPG'' # [''notes.txt'', ''pic.png''])) \<and>
   lower (snd (splitext ''photo.JPG'')) \<in> allowed_ext \<and>
   fst (create_anaglyph refusing_env ''in/photo.JPG'' ''out/photo_anaglyph.JPG'' 10 sample_world)
     = Inr False \<and>
   (\<exists>w3. process_directory refusing_env ''in'' ''out'' 10 sample_world = (Inr (), w3) \<and>
      length (stdout w3) = 3) \<and>
   stdout (snd (process_directory refusing_env ''in'' ''out'' 10 sample_world)) =
     [''Error saving out/photo_anaglyph.JPG: [Errno 13] Permission denied: ''
        @ quoted ''out/photo_anaglyph.JPG'',
      ''Skipping non-image file: notes.txt'',
      ''Error opening in/pic.png: cannot identify image file'']"
proof -
  have x: "path_exists sample_world ''out''"
    by (simp add: path_exists_def sample_world_def sample_files_def)
  then have m: "(if \<not> path_exists sample_world ''out''
    then makedirs refusing_env ''out'' (fs sample_world) else (None, fs sample_world))
     = (None, fs sample_world)"
    by simp
  have d: "fs sample_world ''in'' = Some (Dir ([] @ ''photo.JPG'' # [''notes.txt'', ''pic.png'']))"
    by (simp add: sample_world_def sample_files_def)
  have s: "stdout sample_world = []"
    by (simp add: sample_world_def)
  have l: "lower (snd (splitext ''photo.JPG'')) = ''.jpg''"
    by code_simp
  have a: "''.jpg'' \<in> allowed_ext"
    by (simp add: allowed_ext_def)
  have f: "fst (create_anaglyph refusing_env ''in/photo.JPG'' ''out/photo_anaglyph.JPG'' 10
      sample_world) = Inr False"
    by code_simp
  have out: "stdout (snd (process_directory refusing_env ''in'' ''out'' 10 sample_world)) =
     [''Error saving out/photo_anaglyph.JPG: [Errno 13] Permission denied: ''
        @ quoted ''out/photo_anaglyph.JPG'',
      ''Skipping non-image file: notes.txt'',
      ''Error opening in/pic.png: cannot identify image file'']"
    by code_simp
  from sweep_never_halts [OF m d, where offset = 10] obtain w3 where
    "process_directory refusing_env ''in'' ''out'' 10 sample_world = (Inr (), w3)"
    "length (stdout w3) = length (stdout sample_world) + length ([]::string list) + 1
       + length [''notes.txt'', ''pic.png'']"
    by blast
  then have "\<exists>w3. process_directory refusing_env ''in'' ''out'' 10 sample_world = (Inr (), w3) \<and>
      length (stdout w3) = 3"
    using s by simp
  then show ?thesis
    using m d f out by (simp add: l a)
qed

section \<open>Properties of the script\<close>

lemma create_anaglyph_failure_line:
  assumes "fst (create_anaglyph e input_path output_path offset w) = Inr False"
  shows "\<exists>err. stdout (snd (create_anaglyph e input_path output_path offset w)) =
             stdout w @ [''Error opening '' @ input_path @ '': '' @ str_exn err] \<or>
           stdout (snd (create_anaglyph e input_path output_path offset w)) =
             stdout w @ [''Error saving '' @ output_path @ '': '' @ str_exn err]"
  using assms
  by (auto simp: create_anaglyph_def anaglyph_image_eq print_line_def
      split: sum.splits option.splits prod.splits)

lemma main_usage:
  "length argv < 3 \<Longrightarrow> main e argv w = (Exit 1, print_line usage w)"
  by (simp add: main_def)

lemma main_bad_offset:
  "3 < length argv \<Longrightarrow> int_of_str (argv ! 3) = None \<Longrightarrow>
     main e argv w = (Uncaught (ValueError (int_error e (argv ! 3))), w)"
  by (simp add: main_def)

lemma main_mismatch:
  assumes "3 \<le> length argv"
    and "(if 3 < length argv then int_of_str (argv ! 3) else Some 10) = Some k"
    and "isdir w (argv ! 1)" "\<not> isdir w (argv ! 2)"
  shows "main e argv w =
           (Exit 1,
            print_line ''Error: When input is a directory, output must also be a directory.'' w)"
  using assms by (simp add: main_def Let_def split: if_splits)

lemma main_batch:
  assumes "3 \<le> length argv"
    and "(if 3 < length argv then int_of_str (argv ! 3) else Some 10) = Some k"
    and "isdir w (argv ! 1)" "isdir w (argv ! 2)"
  shows "main e argv w = (Exit 0, snd (process_directory e (argv ! 1) (argv ! 2) k w))"
proof -
  obtain w' where "process_directory e (argv ! 1) (argv ! 2) k w = (Inr (), w')"
    using process_directory_returns [OF assms(3) isdir_exists [OF assms(4)]] by blast
  then show ?thesis
    using assms by (simp add: main_def Let_def split: if_splits)
qed

lemma main_batch_lines:
  assumes "isdir w input_dir" "isdir w output_dir"
  shows "\<exists>names. fs w input_dir = Some (Dir names) \<and>
           length (stdout (snd (process_directory e input_dir output_dir k w))) =
             length (stdout w) + length names"
proof -
  obtain names where n: "fs w input_dir = Some (Dir names)"
    using assms(1) by (auto simp: isdir_def split: option.splits node.splits)
  have "process_directory e input_dir output_dir k w =
      sweep e input_dir output_dir k names w"
    using isdir_exists [OF assms(2)] n by (simp add: process_directory_def listdir_def)
  then show ?thesis
    using n sweep_lines [of e input_dir output_dir k names w] by simp
qed

lemma main_single:
  assumes "3 \<le> length argv"
    and "(if 3 < length argv then int_of_str (argv ! 3) else Some 10) = Some k"
    and "\<not> isdir w (argv ! 1)"
  shows "main e argv w = (Exit 0, snd (create_anaglyph e (argv ! 1) (argv ! 2) k w))"
proof -
  obtain ok w' where "create_anaglyph e (argv ! 1) (argv ! 2) k w = (Inr ok, w')"
    using create_anaglyph_returns by blast
  then show ?thesis
    using assms by (simp add: main_def Let_def split: if_splits)
qed

text \<open>
  C6, as the code has it. The process ends with exit status 1 exactly when fewer than
  two positional arguments are given, or the third argument is present and \<open>int\<close>
  rejects it (the ValueError is not caught; this is decided before the test whether
  the input is a directory), or the input path is a directory and the output path is
  not. Every other run ends with status 0, even when conversions fail, and the
  failures are lines on standard output: with too few arguments the usage line is
  printed, with the directory mismatch the error line, in batch mode one line for
  each entry of the input directory, and in single-file mode the one line of
  \<open>create_anaglyph\<close>, which is its error line when it returns \<open>False\<close>.
\<close>

theorem main_exit_code:
  "exit_status (fst (main e argv w)) =
     (if length argv < 3 \<or> (3 < length argv \<and> int_of_str (argv ! 3) = None) \<or>
         (isdir w (argv ! 1) \<and> \<not> isdir w (argv ! 2))
      then 1 else 0) \<and>
   (length argv < 3 \<longrightarrow> main e argv w = (Exit 1, print_line usage w)) \<and>
   (3 < length argv \<and> int_of_str (argv ! 3) = None \<longrightarrow>
      (\<exists>msg. main e argv w = (Uncaught (ValueError msg), w))) \<and>
   (\<forall>k. 3 \<le> length argv \<and>
        (if 3 < length argv then int_of_str (argv ! 3) else Some 10) = Some k \<longrightarrow>
      (if isdir w (argv ! 1)
       then (if isdir w (argv ! 2)
             then main e argv w =
                    (Exit 0, snd (process_directory e (argv ! 1) (argv ! 2) k w)) \<and>
                  (\<exists>names. fs w (argv ! 1) = Some (Dir names) \<and>
                     length (stdout (snd (main e argv w))) = length (stdout w) + length names)
             else main e argv w =
                    (Exit 1,
                     print_line
                       ''Error: When input is a directory, output must also be a directory.'' w))
       else main e argv w = (Exit 0, snd (create_anaglyph e (argv ! 1) (argv ! 2) k w)) \<and>
            (\<exists>line. stdout (snd (main e argv w)) = stdout w @ [line]) \<and>
            (fst (create_anaglyph e (argv ! 1) (argv ! 2) k w) = Inr False \<longrightarrow>
               (\<exists>err. stdout (snd (main e argv w)) =
                    stdout w @ [''Error opening '' @ argv ! 1 @ '': '' @ str_exn err] \<or>
                  stdout (snd (main e argv w)) =
                    stdout w @ [''Error saving '' @ argv ! 2 @ '': '' @ str_exn err]))))"
proof -
  have usage_case: "length argv < 3 \<longrightarrow> main e argv w = (Exit 1, print_line usage w)"
    using main_usage by blast
  have bad_case: "3 < length argv \<and> int_of_str (argv ! 3) = None \<longrightarrow>
      (\<exists>msg. main e argv w = (Uncaught (ValueError msg), w))"
    using main_bad_offset by blast
  have run: "if isdir w (argv ! 1)
       then (if isdir w (argv ! 2)
             then main e argv w =
                    (Exit 0, snd (process_directory e (argv ! 1) (argv ! 2) k w)) \<and>
                  (\<exists>names. fs w (argv ! 1) = Some (Dir names) \<and>
                     length (stdout (snd (main e argv w))) = length (stdout w) + length names)
             else main e argv w =
                    (Exit 1,
                     print_line
                       ''Error: When input is a directory, output must also be a directory.'' w))
       else main e argv w = (Exit 0, snd (create_anaglyph e (argv ! 1) (argv ! 2) k w)) \<and>
            (\<exists>line. stdout (snd (main e argv w)) = stdout w @ [line]) \<and>
            (fst (create_anaglyph e (argv ! 1) (argv ! 2) k w) = Inr False \<longrightarrow>
               (\<exists>err. stdout (snd (main e argv w)) =
                    stdout w @ [''Error opening '' @ argv ! 1 @ '': '' @ str_exn err] \<or>
                  stdout (snd (main e argv w)) =
                    stdout w @ [''Error saving '' @ argv ! 2 @ '': '' @ str_exn err]))"
    if len: "3 \<le> length argv"
      and k: "(if 3 < length argv then int_of_str (argv ! 3) else Some 10) = Some k" for k
  proof (cases "isdir w (argv ! 1)")
    case indir: True
    show ?thesis
    proof (cases "isdir w (argv ! 2)")
      case True
      have m: "main e argv w = (Exit 0, snd (process_directory e (argv ! 1) (argv ! 2) k w))"
        using main_batch [OF len k indir True] .
      show ?thesis
        using indir True m main_batch_lines [OF indir True, of e k] by simp
    next
      case False
      show ?thesis
        using indir False main_mismatch [OF len k indir False] by simp
    qed
  next
    case False
    have m: "main e argv w = (Exit 0, snd (create_anaglyph e (argv ! 1) (argv ! 2) k w))"
      using main_single [OF len k False] .
    show ?thesis
      using False m create_anaglyph_one_line [of e "argv ! 1" "argv ! 2" k w]
        create_anaglyph_failure_line [of e "argv ! 1" "argv ! 2" k w]
      by simp
  qed
  have status: "exit_status (fst (main e argv w)) =
     (if length argv < 3 \<or> (3 < length argv \<and> int_of_str (argv ! 3) = None) \<or>
         (isdir w (argv ! 1) \<and> \<not> isdir w (argv ! 2))
      then 1 else 0)"
  proof (cases "length argv < 3")
    case True
    then show ?thesis by (simp add: main_usage)
  next
    case long: False
    show ?thesis
    proof (cases "if 3 < length argv then int_of_str (argv ! 3) else Some 10")
      case None
      then have b: "3 < length argv" "int_of_str (argv ! 3) = None"
        by (auto split: if_splits)
      then show ?thesis by (simp add: main_bad_offset)
    next
      case (Some k)
      have len: "3 \<le> length argv" using long by simp
      have nb: "\<not> (3 < length argv \<and> int_of_str (argv ! 3) = None)"
        using Some by (auto split: if_splits)
      show ?thesis
        using run [OF len Some] long nb by (auto split: if_splits)
    qed
  qed
  show ?thesis
    using status usage_case bad_case run by blast
qed

theorem main_exit_code_witness:
  "\<not> length [''anaglyph.py'', ''missing.jpg'', ''out.jpg''] < 3 \<and>
   \<not> isdir sample_world ''missing.jpg'' \<and>
   fst (create_anaglyph storing_env ''missing.jpg'' ''out.jpg'' 10 sample_world) = Inr False \<and>
   exit_status (fst (main storing_env [''anaglyph.py'', ''missing.jpg'', ''out.jpg'']
      sample_world)) = 0 \<and>
   stdout (snd (main storing_env [''anaglyph.py'', ''missing.jpg'', ''out.jpg''] sample_world)) =
     [''Error opening missing.jpg: [Errno 2] No such file or directory: ''
        @ quoted ''missing.jpg'']"
proof -
  let ?argv = "[''anaglyph.py'', ''missing.jpg'', ''out.jpg'']"
  have o: "Image_open sample_world ''missing.jpg'' =
     Inl (FileNotFoundError (''[Errno 2] No such file or directory: '' @ quoted ''missing.jpg''))"
    by (simp add: Image_open_def sample_world_def sample_files_def)
  have d: "\<not> isdir sample_world ''missing.jpg''"
    by (simp add: isdir_def sample_world_def sample_files_def)
  have s: "stdout sample_world = []"
    by (simp add: sample_world_def)
  have c: "create_anaglyph storing_env ''missing.jpg'' ''out.jpg'' 10 sample_world =
      (Inr False, print_line (''Error opening '' @ ''missing.jpg'' @ '': '' @
         ''[Errno 2] No such file or directory: '' @ quoted ''missing.jpg'') sample_world)"
    by (simp add: create_anaglyph_def o)
  have st: "exit_status (fst (main storing_env ?argv sample_world)) = 0"
    using main_exit_code [of storing_env ?argv sample_world] d by simp
  have "main storing_env ?argv sample_world =
      (Exit 0, snd (create_anaglyph storing_env ''missing.jpg'' ''out.jpg'' 10 sample_world))"
    using main_exit_code [of storing_env ?argv sample_world] d by simp
  then have out: "stdout (snd (main storing_env ?argv sample_world)) =
     [''Error opening missing.jpg: [Errno 2] No such file or directory: ''
        @ quoted ''missing.jpg'']"
    by (simp add: c print_line_def s)
  show ?thesis
    using d c st out by simp
qed

text \<open>
  C6 as stated gives exit code 1 only for too few arguments or a directory input with
  an output that is not a directory. With two positional arguments, a file as input
  and the third argument \<open>x2\<close>, the run ends with the uncaught ValueError and exit
  status 1.
\<close>

theorem exit_code_one_counterexample:
  "\<not> length [''anaglyph.py'', ''in/photo.JPG'', ''out/a.jpg'', ''x2''] < 3 \<and>
   \<not> isdir sample_world ''in/photo.JPG'' \<and>
   exit_status (fst (main storing_env [''anaglyph.py'', ''in/photo.JPG'', ''out/a.jpg'', ''x2'']
      sample_world)) = 1"
proof -
  have p: "int_of_str ([''anaglyph.py'', ''in/photo.JPG'', ''out/a.jpg'', ''x2''] ! 3) = None"
    by code_simp
  have l: "3 < length [''anaglyph.py'', ''in/photo.JPG'', ''out/a.jpg'', ''x2'']"
    by simp
  have d: "\<not> isdir sample_world ''in/photo.JPG''"
    by (simp add: isdir_def sample_world_def sample_files_def)
  show ?thesis
    using main_bad_offset [OF l p, of storing_env sample_world] d by simp
qed

text \<open>
  C10. When a third argument is present and \<open>int\<close> rejects it, the ValueError is not
  caught: the run ends there, before the test whether the input is a directory, with
  nothing printed and no file touched.
\<close>

theorem bad_offset_raises:
  assumes "3 < length argv" "int_of_str (argv ! 3) = None"
  shows "\<exists>msg. main e argv w = (Uncaught (ValueError msg), w)"
  using main_bad_offset [OF assms] by blast

theorem bad_offset_raises_witness:
  "3 < length [''anaglyph.py'', ''shots'', ''nowhere'', ''x2''] \<and>
   int_of_str ([''anaglyph.py'', ''shots'', ''nowhere'', ''x2''] ! 3) = None \<and>
   (\<exists>msg. main storing_env [''anaglyph.py'', ''shots'', ''nowhere'', ''x2''] sample_world =
      (Uncaught (ValueError msg), sample_world)) \<and>
   3 < length [''anaglyph.py'', ''in/photo.JPG'', ''out/a.jpg'', [CHR 0x1C, CHR ''7'', CHR 0x1F]] \<and>
   int_of_str ([''anaglyph.py'', ''in/photo.JPG'', ''out/a.jpg'',
      [CHR 0x1C, CHR ''7'', CHR 0x1F]] ! 3) = None \<and>
   (\<exists>msg. main storing_env [''anaglyph.py'', ''in/photo.JPG'', ''out/a.jpg'',
        [CHR 0x1C, CHR ''7'', CHR 0x1F]] sample_world =
      (Uncaught (ValueError msg), sample_world))"
proof -
  have p: "int_of_str ([''anaglyph.py'', ''shots'', ''nowhere'', ''x2''] ! 3) = None"
    by code_simp
  have l: "3 < length [''anaglyph.py'', ''shots'', ''nowhere'', ''x2'']"
    by simp
  have p': "int_of_str ([''anaglyph.py'', ''in/photo.JPG'', ''out/a.jpg'',
      [CHR 0x1C, CHR ''7'', CHR 0x1F]] ! 3) = None"
    by code_simp
  have l': "3 < length [''anaglyph.py'', ''in/photo.JPG'', ''out/a.jpg'',
      [CHR 0x1C, CHR ''7'', CHR 0x1F]]"
    by simp
  show ?thesis
    using bad_offset_raises [OF l p, of storing_env sample_world]
      bad_offset_raises [OF l' p', of storing_env sample_world] p p'
    by simp
qed

end
